theory Spec2Isabelle
  imports Main "HOL-Library.Word"
begin

section \<open>The board: peripherals reached through the drivers\<close>

text \<open>
  The firmware projects call the LED, LCD, ultrasonic sensor, UART and timer drivers
  (\<^verbatim>\<open>led.h\<close>, \<^verbatim>\<open>lcditse0803.h\<close>, \<^verbatim>\<open>hc_sr04.h\<close>, \<^verbatim>\<open>uart_mcu.h\<close>,
  \<^verbatim>\<open>timer_mcu.h\<close>). The drivers are not among the sources, so each one is a small
  state update on a record of the board, and every call is also appended to a log, so
  that "this driver was (not) called" can be stated.
\<close>

datatype led_t = LED_1 | LED_2 | LED_3

datatype call =
    LedOn_call led_t
  | LedOff_call led_t
  | LedToggle_call led_t
  | LedsOffAll_call
  | LcdItsE0803Write_call "16 word"
  | LcdItsE0803Off_call
  | HcSr04ReadDistanceInCentimeters_call
  | HcSr04ReadDistanceInInches_call
  | UartSendString_call string
  | UartSendByte_call char
  | TimerUpdatePeriod_call "32 word"
  | vTaskDelay_call

text \<open>
  The state of the peripherals: the three LEDs, what the LCD shows (\<open>None\<close> when it is
  off), the bytes sent on the UART towards the PC, the period programmed into the
  hardware timer, and the log of driver calls.
\<close>

record board =
  led_1 :: bool
  led_2 :: bool
  led_3 :: bool
  lcd :: "16 word option"
  uart_tx :: string
  timer_a :: "32 word"
  calls :: "call list"

text \<open>Modelled from the spec: \<^verbatim>\<open>LedOn\<close> of the LED driver, which switches one LED on.\<close>

definition LedOn :: "led_t \<Rightarrow> 'a board_scheme \<Rightarrow> 'a board_scheme" where
  "LedOn l s =
     (case l of
        LED_1 \<Rightarrow> s\<lparr>led_1 := True, calls := calls s @ [LedOn_call l]\<rparr>
      | LED_2 \<Rightarrow> s\<lparr>led_2 := True, calls := calls s @ [LedOn_call l]\<rparr>
      | LED_3 \<Rightarrow> s\<lparr>led_3 := True, calls := calls s @ [LedOn_call l]\<rparr>)"

text \<open>Modelled from the spec: \<^verbatim>\<open>LedOff\<close> of the LED driver, which switches one LED off.\<close>

definition LedOff :: "led_t \<Rightarrow> 'a board_scheme \<Rightarrow> 'a board_scheme" where
  "LedOff l s =
     (case l of
        LED_1 \<Rightarrow> s\<lparr>led_1 := False, calls := calls s @ [LedOff_call l]\<rparr>
      | LED_2 \<Rightarrow> s\<lparr>led_2 := False, calls := calls s @ [LedOff_call l]\<rparr>
      | LED_3 \<Rightarrow> s\<lparr>led_3 := False, calls := calls s @ [LedOff_call l]\<rparr>)"

text \<open>Modelled from the spec: \<^verbatim>\<open>LedToggle\<close> of the LED driver, which inverts one LED.\<close>

definition LedToggle :: "led_t \<Rightarrow> 'a board_scheme \<Rightarrow> 'a board_scheme" where
  "LedToggle l s =
     (case l of
        LED_1 \<Rightarrow> s\<lparr>led_1 := \<not> led_1 s, calls := calls s @ [LedToggle_call l]\<rparr>
      | LED_2 \<Rightarrow> s\<lparr>led_2 := \<not> led_2 s, calls := calls s @ [LedToggle_call l]\<rparr>
      | LED_3 \<Rightarrow> s\<lparr>led_3 := \<not> led_3 s, calls := calls s @ [LedToggle_call l]\<rparr>)"

text \<open>Modelled from the spec: \<^verbatim>\<open>LedsOffAll\<close> of the LED driver, which switches the three LEDs off.\<close>

definition LedsOffAll :: "'a board_scheme \<Rightarrow> 'a board_scheme" where
  "LedsOffAll s =
     s\<lparr>led_1 := False, led_2 := False, led_3 := False, calls := calls s @ [LedsOffAll_call]\<rparr>"

text \<open>Modelled from the spec: \<^verbatim>\<open>LcdItsE0803Write\<close> of the LCD driver, which shows a value.\<close>

definition LcdItsE0803Write :: "16 word \<Rightarrow> 'a board_scheme \<Rightarrow> 'a board_scheme" where
  "LcdItsE0803Write v s = s\<lparr>lcd := Some v, calls := calls s @ [LcdItsE0803Write_call v]\<rparr>"

text \<open>Modelled from the spec: \<^verbatim>\<open>LcdItsE0803Off\<close> of the LCD driver, which clears the display.\<close>

definition LcdItsE0803Off :: "'a board_scheme \<Rightarrow> 'a board_scheme" where
  "LcdItsE0803Off s = s\<lparr>lcd := None, calls := calls s @ [LcdItsE0803Off_call]\<rparr>"

text \<open>
  Modelled from the spec: the two read functions of the ultrasonic sensor driver. The
  value the sensor measures at this moment is an input of the model; the call is logged.
\<close>

definition HcSr04ReadDistanceInCentimeters ::
    "16 word \<Rightarrow> 'a board_scheme \<Rightarrow> 16 word \<times> 'a board_scheme" where
  "HcSr04ReadDistanceInCentimeters cm s =
     (cm, s\<lparr>calls := calls s @ [HcSr04ReadDistanceInCentimeters_call]\<rparr>)"

definition HcSr04ReadDistanceInInches ::
    "16 word \<Rightarrow> 'a board_scheme \<Rightarrow> 16 word \<times> 'a board_scheme" where
  "HcSr04ReadDistanceInInches inch s =
     (inch, s\<lparr>calls := calls s @ [HcSr04ReadDistanceInInches_call]\<rparr>)"

text \<open>Modelled from the spec: \<^verbatim>\<open>UartSendString\<close> of the UART driver, which sends the bytes of a string.\<close>

definition UartSendString :: "string \<Rightarrow> 'a board_scheme \<Rightarrow> 'a board_scheme" where
  "UartSendString str s =
     s\<lparr>uart_tx := uart_tx s @ str, calls := calls s @ [UartSendString_call str]\<rparr>"

text \<open>Modelled from the spec: \<^verbatim>\<open>UartSendByte\<close> of the UART driver, which sends one byte.\<close>

definition UartSendByte :: "char \<Rightarrow> 'a board_scheme \<Rightarrow> 'a board_scheme" where
  "UartSendByte b s =
     s\<lparr>uart_tx := uart_tx s @ [b], calls := calls s @ [UartSendByte_call b]\<rparr>"

text \<open>
  Modelled from the spec: \<^verbatim>\<open>TimerUpdatePeriod\<close> of the timer driver, which programs a new
  period into the hardware timer.
\<close>

definition TimerUpdatePeriod :: "32 word \<Rightarrow> 'a board_scheme \<Rightarrow> 'a board_scheme" where
  "TimerUpdatePeriod p s = s\<lparr>timer_a := p, calls := calls s @ [TimerUpdatePeriod_call p]\<rparr>"

text \<open>Modelled from the spec: \<^verbatim>\<open>vTaskDelay\<close> of the scheduler; only the call is logged.\<close>

definition vTaskDelay :: "'a board_scheme \<Rightarrow> 'a board_scheme" where
  "vTaskDelay s = s\<lparr>calls := calls s @ [vTaskDelay_call]\<rparr>"

text \<open>
  Modelled from the spec: \<^verbatim>\<open>UartItoa(val, 10)\<close> of the UART driver, the decimal rendering
  of an unsigned value (no sign, no leading zeros, \<open>0\<close> for zero).
\<close>

definition digit_char :: "nat \<Rightarrow> char" where
  "digit_char d = ''0123456789'' ! d"

fun decimal :: "nat \<Rightarrow> string" where
  "decimal n = (if n < 10 then [digit_char n] else decimal (n div 10) @ [digit_char (n mod 10)])"

definition UartItoa_10 :: "32 word \<Rightarrow> string" where
  "UartItoa_10 val = decimal (unat val)"

text \<open>The calls that write an LED or the display, and the calls of a measurement.\<close>

fun is_visual_call :: "call \<Rightarrow> bool" where
  "is_visual_call (LedOn_call l) = True"
| "is_visual_call (LedOff_call l) = True"
| "is_visual_call (LedToggle_call l) = True"
| "is_visual_call LedsOffAll_call = True"
| "is_visual_call (LcdItsE0803Write_call v) = True"
| "is_visual_call LcdItsE0803Off_call = True"
| "is_visual_call c = False"

fun is_sample_call :: "call \<Rightarrow> bool" where
  "is_sample_call HcSr04ReadDistanceInCentimeters_call = True"
| "is_sample_call HcSr04ReadDistanceInInches_call = True"
| "is_sample_call (UartSendString_call str) = True"
| "is_sample_call c = False"

section \<open>The distance meter with serial commands (proyecto2\_e3)\<close>

text \<open>
  The globals of \<^verbatim>\<open>proyecto2_e3.c\<close>: the flags \<^verbatim>\<open>medir\<close>, \<^verbatim>\<open>hold\<close>,
  \<^verbatim>\<open>pulgadas\<close> and \<^verbatim>\<open>timer_medir.period\<close>, on top of the board.

  Modelled from the spec: the type \<^verbatim>\<open>timer_config_t\<close> is declared in \<^verbatim>\<open>timer_mcu.h\<close>,
  which is not among the sources; its field \<^verbatim>\<open>period\<close> is taken as an unsigned 32-bit
  count of microseconds.
\<close>

record system = board +
  medir :: bool
  hold :: bool
  pulgadas :: bool
  period :: "32 word"

definition CONFIG_MEASURE_PERIOD :: "32 word" where
  "CONFIG_MEASURE_PERIOD = 1000 * 1000"

definition TIEMPO_DE_LECTURA_MINIMO :: "32 word" where
  "TIEMPO_DE_LECTURA_MINIMO = 100 * 1000"

definition TIEMPO_DE_LECTURA_MAXIMO :: "32 word" where
  "TIEMPO_DE_LECTURA_MAXIMO = 2000 * 1000"

definition TIEMPO_DE_LECTURA_STEP :: "32 word" where
  "TIEMPO_DE_LECTURA_STEP = 100"

definition MIN_DIST :: "32 word" where
  "MIN_DIST = 10"

definition MED_DIST :: "32 word" where
  "MED_DIST = 20"

definition MAX_DIST :: "32 word" where
  "MAX_DIST = 30"

text \<open>
  The system once \<^verbatim>\<open>app_main\<close> has run: the globals at their initialisers, the timer
  programmed with \<^verbatim>\<open>timer_medir.period\<close>, nothing lit, shown or sent yet.
\<close>

definition power_on :: system where
  "power_on =
     \<lparr>led_1 = False, led_2 = False, led_3 = False, lcd = None, uart_tx = [],
      timer_a = CONFIG_MEASURE_PERIOD, calls = [],
      medir = True, hold = False, pulgadas = False, period = CONFIG_MEASURE_PERIOD\<rparr>"

definition encenderLedSegunDistancia :: "32 word \<Rightarrow> system \<Rightarrow> system" where
  "encenderLedSegunDistancia distance s =
     (if distance < MIN_DIST then LedsOffAll s
      else if MIN_DIST \<le> distance \<and> distance < MED_DIST then
        LedOff LED_3 (LedOff LED_2 (LedOn LED_1 s))
      else if MED_DIST \<le> distance \<and> distance < MAX_DIST then
        LedOff LED_3 (LedOn LED_2 (LedOn LED_1 s))
      else if MAX_DIST \<le> distance then
        LedOn LED_3 (LedOn LED_2 (LedOn LED_1 s))
      else s)"

definition tecla_1 :: "system \<Rightarrow> system" where
  "tecla_1 s =
     (let s1 = s\<lparr>medir := \<not> medir s\<rparr>
      in if medir s1 = False then LcdItsE0803Off (LedsOffAll s1) else s1)"

definition tecla_2 :: "system \<Rightarrow> system" where
  "tecla_2 s = s\<lparr>hold := \<not> hold s\<rparr>"

text \<open>
  \<^verbatim>\<open>leer_teclado\<close>: \<open>letra\<close> is the byte that \<^verbatim>\<open>UartReadByte\<close> delivers. The byte is
  echoed first, then the \<^verbatim>\<open>switch\<close> dispatches on it.
\<close>

definition leer_teclado :: "char \<Rightarrow> system \<Rightarrow> system" where
  "leer_teclado letra s0 =
     (let s = UartSendByte letra s0
      in if letra = CHR ''O'' then tecla_1 s
         else if letra = CHR ''H'' then tecla_2 s
         else if letra = CHR ''I'' then s\<lparr>pulgadas := \<not> pulgadas s\<rparr>
         else if letra = CHR ''M'' then s
         else if letra = CHR ''F'' then
           (if TIEMPO_DE_LECTURA_MINIMO < period s then
              (let s1 = s\<lparr>period := period s - TIEMPO_DE_LECTURA_STEP\<rparr>
               in TimerUpdatePeriod (period s1) s1)
            else s)
         else if letra = CHR ''S'' then
           (if period s < TIEMPO_DE_LECTURA_MAXIMO then
              (let s1 = s\<lparr>period := period s + TIEMPO_DE_LECTURA_STEP\<rparr>
               in TimerUpdatePeriod (period s1) s1)
            else s)
         else s)"

definition mandar_distancia :: "16 word \<Rightarrow> system \<Rightarrow> system" where
  "mandar_distancia distancia s =
     (let s1 = UartSendString ''Distancia: '' s;
          numero = UartItoa_10 (ucast distancia);
          s2 = UartSendString numero s1
      in if pulgadas s2 = True then UartSendString ('' in'' @ [CHR 0x0D, CHR 0x0A]) s2
         else UartSendString ('' cm'' @ [CHR 0x0D, CHR 0x0A]) s2)"

text \<open>
  One iteration of the loop of \<^verbatim>\<open>Medir_MostrarPantalla_Task\<close>, after the notification
  has been taken. \<open>cm\<close> and \<open>inch\<close> are what the sensor measures during this cycle in
  either unit.
\<close>

definition Medir_MostrarPantalla_Task :: "16 word \<Rightarrow> 16 word \<Rightarrow> system \<Rightarrow> system" where
  "Medir_MostrarPantalla_Task cm inch s0 =
     (let (distancia, s1) =
            (if medir s0 = True \<and> pulgadas s0 = False then
               (let (d, s) = HcSr04ReadDistanceInCentimeters cm s0 in (d, mandar_distancia d s))
             else if medir s0 = True \<and> pulgadas s0 = True then
               (let (d, s) = HcSr04ReadDistanceInInches inch s0 in (d, mandar_distancia d s))
             else (0, s0))
      in if hold s1 = False \<and> medir s1 = True then
           LcdItsE0803Write distancia (encenderLedSegunDistancia (ucast distancia) s1)
         else s1)"

text \<open>
  The events seen by the period controller: a byte arrives on the UART, one of the two
  switches is pressed, or the timer fires and the task runs one cycle. Only
  \<^verbatim>\<open>leer_teclado\<close> writes the period, so for the period a cycle can be taken as one
  step; the interleaving of the task with the handlers is modelled further down.
\<close>

datatype event = Uart_Rx char | Switch_1 | Switch_2 | Timer_A "16 word" "16 word"

fun step :: "system \<Rightarrow> event \<Rightarrow> system" where
  "step s (Uart_Rx letra) = leer_teclado letra s"
| "step s Switch_1 = tecla_1 s"
| "step s Switch_2 = tecla_2 s"
| "step s (Timer_A cm inch) = Medir_MostrarPantalla_Task cm inch s"

definition run :: "system \<Rightarrow> event list \<Rightarrow> system" where
  "run s es = foldl step s es"

text \<open>The range the period is meant to stay in, and the grid of steps it moves on.\<close>

definition period_ok :: "32 word \<Rightarrow> bool" where
  "period_ok p \<longleftrightarrow>
     TIEMPO_DE_LECTURA_MINIMO \<le> p \<and> p \<le> TIEMPO_DE_LECTURA_MAXIMO \<and> unat p mod 100 = 0"

text \<open>The LEDs and the display in their off representation.\<close>

definition visual_off :: "'a board_scheme \<Rightarrow> bool" where
  "visual_off s \<longleftrightarrow> led_1 s = False \<and> led_2 s = False \<and> led_3 s = False \<and> lcd s = None"

text \<open>
  The task and the handlers interleaved. \<^verbatim>\<open>tecla_1\<close> and \<^verbatim>\<open>tecla_2\<close> are the
  callbacks of the two switch interrupts and \<^verbatim>\<open>leer_teclado\<close> is the callback of the
  UART, so a handler can run between two statements of the task's loop body. The control
  points of the body carry the line numbers of \<^verbatim>\<open>proyecto2_e3.c\<close>: the task waits for
  the notification (162), tests the flags (164, 169), reads the sensor (166, 171), sends
  the value just read (167, 172), tests the flags again (175) and writes the LEDs (177)
  and the display (178). The value of the local \<^verbatim>\<open>distancia\<close> is kept with the
  control point once it has been read.
\<close>

datatype task_pc =
    Waiting
  | Line_164
  | Line_166
  | Line_167 "16 word"
  | Line_169
  | Line_171
  | Line_172 "16 word"
  | Line_175 "16 word"
  | Line_177 "16 word"
  | Line_178 "16 word"

text \<open>
  One statement of the loop body. From \<open>Waiting\<close> the step is the return of
  \<^verbatim>\<open>ulTaskNotifyTake\<close> after the timer has fired, followed by \<^verbatim>\<open>distancia = 0\<close>.
\<close>

fun task_step :: "16 word \<Rightarrow> 16 word \<Rightarrow> task_pc \<Rightarrow> system \<Rightarrow> task_pc \<times> system" where
  "task_step cm inch Waiting s = (Line_164, s)"
| "task_step cm inch Line_164 s =
     (if medir s = True \<and> pulgadas s = False then (Line_166, s) else (Line_169, s))"
| "task_step cm inch Line_166 s =
     (let (d, s') = HcSr04ReadDistanceInCentimeters cm s in (Line_167 d, s'))"
| "task_step cm inch (Line_167 d) s = (Line_175 d, mandar_distancia d s)"
| "task_step cm inch Line_169 s =
     (if medir s = True \<and> pulgadas s = True then (Line_171, s) else (Line_175 0, s))"
| "task_step cm inch Line_171 s =
     (let (d, s') = HcSr04ReadDistanceInInches inch s in (Line_172 d, s'))"
| "task_step cm inch (Line_172 d) s = (Line_175 d, mandar_distancia d s)"
| "task_step cm inch (Line_175 d) s =
     (if hold s = False \<and> medir s = True then (Line_177 d, s) else (Waiting, s))"
| "task_step cm inch (Line_177 d) s = (Line_178 d, encenderLedSegunDistancia (ucast d) s)"
| "task_step cm inch (Line_178 d) s = (Waiting, LcdItsE0803Write d s)"

text \<open>The statements of one cycle run without interruption, until the task waits again.\<close>

fun task_cycle :: "nat \<Rightarrow> 16 word \<Rightarrow> 16 word \<Rightarrow> task_pc \<Rightarrow> system \<Rightarrow> system option" where
  "task_cycle 0 cm inch p s = None"
| "task_cycle (Suc n) cm inch p s =
     (case task_step cm inch p s of
        (p', s') \<Rightarrow> if p' = Waiting then Some s' else task_cycle n cm inch p' s')"











section \<open>The distance meter without the serial line (proyecto2\_e2)\<close>

text \<open>
  \<^verbatim>\<open>proyecto2_e2.c\<close> has the same two flags \<^verbatim>\<open>medir\<close> and \<^verbatim>\<open>hold\<close> and the same
  \<^verbatim>\<open>encenderLedSegunDistancia\<close>; one iteration of its task, on the same record.
\<close>

definition Medir_MostrarPantalla_Task_e2 :: "16 word \<Rightarrow> system \<Rightarrow> system" where
  "Medir_MostrarPantalla_Task_e2 cm s0 =
     (let (distancia, s1) =
            (if medir s0 = True then HcSr04ReadDistanceInCentimeters cm s0 else (0, s0))
      in if hold s1 = False \<and> medir s1 = True then
           LcdItsE0803Write distancia (encenderLedSegunDistancia (ucast distancia) s1)
         else s1)"

section \<open>The replayed test signal of the analog example\<close>

definition test_signal :: "8 word list" where
  "test_signal =
     [1, 2, 3, 4, 5, 6, 7, 8, 9, 10]
     @ [11, 12, 13, 14, 15, 16, 17, 18, 19, 20]
     @ [21, 22, 23, 24, 25, 26, 27, 28, 29, 30]
     @ [31, 32, 33, 34, 35, 36, 37, 38, 39, 40]
     @ [41, 42, 43, 44, 45, 46, 47, 48, 49, 50]
     @ [51, 52, 53, 54, 55, 56, 57, 58, 59, 60]
     @ [61, 62, 63, 64, 65, 66, 67, 68, 69, 70]
     @ [71, 72, 73, 74, 75, 76, 77, 78, 79, 80]
     @ [81, 82, 83, 84, 85, 86, 87, 88, 89, 90]
     @ [91, 92, 93, 94, 95, 96, 97, 98, 99, 100]
     @ [101, 102, 103, 104, 105, 106, 107, 108, 109, 110]
     @ [111, 112, 113, 114, 115, 116, 117, 118, 119, 120]
     @ [121, 122, 123, 124, 125, 126, 127, 128, 129, 130]
     @ [131, 132, 133, 134, 135, 136, 137, 138, 139, 140]
     @ [141, 142, 143, 144, 145, 146, 147, 148, 149, 150]
     @ [151, 152, 153, 154, 155, 156, 157, 158, 159, 160]
     @ [161, 162, 163, 164, 165, 166, 167, 168, 169, 170]
     @ [171, 172, 173, 174, 175, 176, 177, 178, 179, 180]
     @ [181, 182, 183, 184, 185, 186, 187, 188, 189, 190]
     @ [191, 192, 193, 194, 195, 196, 197, 198, 199, 200]
     @ [201, 202, 203, 204, 205, 206, 207, 208, 209, 210]
     @ [211, 212, 213, 214, 215, 216, 217, 218, 219, 220]
     @ [221, 222, 223, 224, 225, 226, 227, 228, 229, 230]
     @ [231]"

record signal_state =
  signal_value :: "16 word"
  sample_index :: "16 word"

text \<open>
  \<^verbatim>\<open>sampleSignal\<close>: the element of \<^verbatim>\<open>test_signal\<close> at \<^verbatim>\<open>sample_index\<close> is stored in
  \<^verbatim>\<open>signal_value\<close> and returned as a \<^verbatim>\<open>char\<close>; the index moves on, or back to 0
  from the last position. Reading outside the array is \<open>None\<close>. A \<^verbatim>\<open>char\<close> is a
  byte, widened without sign to the 16 bits of \<^verbatim>\<open>signal_value\<close>; the byte returned is
  the byte read whichever signedness the compiler gives \<^verbatim>\<open>char\<close>.
\<close>

definition sampleSignal :: "signal_state \<Rightarrow> (8 word \<times> signal_state) option" where
  "sampleSignal s =
     (if unat (sample_index s) < length test_signal then
        (let s1 = s\<lparr>signal_value := ucast (test_signal ! unat (sample_index s))\<rparr>;
             s2 = (if unat (sample_index s1) < length test_signal - 1
                   then s1\<lparr>sample_index := sample_index s1 + 1\<rparr>
                   else s1\<lparr>sample_index := 0\<rparr>)
         in Some (ucast (signal_value s2), s2))
      else None)"

text \<open>The state after \<open>n\<close> calls, and the value that call number \<open>k\<close> (from 0) returns.\<close>

fun after_calls :: "nat \<Rightarrow> signal_state \<Rightarrow> signal_state option" where
  "after_calls 0 s = Some s"
| "after_calls (Suc n) s =
     (case sampleSignal s of None \<Rightarrow> None | Some (v, s') \<Rightarrow> after_calls n s')"

definition nth_call :: "nat \<Rightarrow> signal_state \<Rightarrow> 8 word option" where
  "nth_call k s =
     (case after_calls k s of
        None \<Rightarrow> None
      | Some s' \<Rightarrow> (case sampleSignal s' of None \<Rightarrow> None | Some (v, s'') \<Rightarrow> Some v))"

section \<open>The LED exercise (ejercicio\_3\_proyecto\_1)\<close>

definition ON :: "8 word" where
  "ON = 1"

definition OFF :: "8 word" where
  "OFF = 0"

definition TOGGLE :: "8 word" where
  "TOGGLE = 2"

record Tleds =
  mode :: "8 word"
  n_led :: "8 word"
  n_ciclos :: "8 word"
  periodo :: "16 word"

text \<open>
  Modelled from the spec: the numeric values of \<^verbatim>\<open>LED_1\<close>, \<^verbatim>\<open>LED_2\<close>, \<^verbatim>\<open>LED_3\<close> in
  \<^verbatim>\<open>led.h\<close>, which \<^verbatim>\<open>n_led\<close> is compared with; only that they differ matters here.
\<close>

fun led_code :: "led_t \<Rightarrow> 8 word" where
  "led_code LED_1 = 1"
| "led_code LED_2 = 2"
| "led_code LED_3 = 3"

text \<open>The inner \<^verbatim>\<open>switch (ptr->n_led)\<close> of each of the three cases.\<close>

definition switch_LedOn :: "Tleds \<Rightarrow> board \<Rightarrow> board" where
  "switch_LedOn ptr b =
     (if n_led ptr = led_code LED_1 then LedOn LED_1 b
      else if n_led ptr = led_code LED_2 then LedOn LED_2 b
      else if n_led ptr = led_code LED_3 then LedOn LED_3 b
      else b)"

definition switch_LedOff :: "Tleds \<Rightarrow> board \<Rightarrow> board" where
  "switch_LedOff ptr b =
     (if n_led ptr = led_code LED_1 then LedOff LED_1 b
      else if n_led ptr = led_code LED_2 then LedOff LED_2 b
      else if n_led ptr = led_code LED_3 then LedOff LED_3 b
      else b)"

definition switch_LedToggle :: "Tleds \<Rightarrow> board \<Rightarrow> board" where
  "switch_LedToggle ptr b =
     (if n_led ptr = led_code LED_1 then LedToggle LED_1 b
      else if n_led ptr = led_code LED_2 then LedToggle LED_2 b
      else if n_led ptr = led_code LED_3 then LedToggle LED_3 b
      else b)"

text \<open>
  The delay loop \<^verbatim>\<open>for (uint8_t i = 0; i < ptr->periodo; i++) vTaskDelay(...)\<close>: the
  counter is 8 bits wide and wraps, the bound is 16 bits wide, so the loop need not end.
\<close>

partial_function (option) delay_loop :: "8 word \<Rightarrow> 16 word \<Rightarrow> board \<Rightarrow> board option" where
  "delay_loop i p b = (if ucast i < p then delay_loop (i + 1) p (vTaskDelay b) else Some b)"

declare delay_loop.simps [code]

text \<open>
  The loop \<^verbatim>\<open>for (int i = 0; i < ptr->n_ciclos; i++)\<close> of the \<^verbatim>\<open>TOGGLE\<close> case;
  \<open>n\<close> is the number of iterations still to run.
\<close>

fun toggle_loop :: "nat \<Rightarrow> Tleds \<Rightarrow> board \<Rightarrow> board option" where
  "toggle_loop 0 ptr b = Some b"
| "toggle_loop (Suc n) ptr b =
     (case delay_loop 0 (periodo ptr) (switch_LedToggle ptr b) of
        None \<Rightarrow> None
      | Some b' \<Rightarrow> toggle_loop n ptr b')"

text \<open>
  \<^verbatim>\<open>function_leds\<close>: no case of the outer \<^verbatim>\<open>switch\<close> ends in \<^verbatim>\<open>break\<close>, so
  control runs from the matching label through every case below it.
\<close>

definition function_leds :: "Tleds \<Rightarrow> board \<Rightarrow> board option" where
  "function_leds ptr b =
     (if mode ptr = ON then
        toggle_loop (unat (n_ciclos ptr)) ptr (switch_LedOff ptr (switch_LedOn ptr b))
      else if mode ptr = OFF then
        toggle_loop (unat (n_ciclos ptr)) ptr (switch_LedOff ptr b)
      else if mode ptr = TOGGLE then
        toggle_loop (unat (n_ciclos ptr)) ptr b
      else Some b)"

definition board_off :: board where
  "board_off =
     \<lparr>led_1 = False, led_2 = False, led_3 = False, lcd = None, uart_tx = [],
      timer_a = 0, calls = []\<rparr>"

section \<open>The BCD conversion of the display exercise\<close>

text \<open>
  \<^verbatim>\<open>convertToBcdArray\<close>: the loop \<^verbatim>\<open>for (int i = digits - 1; i >= 0; i--)\<close>, with
  \<open>n = i + 1\<close>; \<open>bcd_number\<close> is the caller's array, and a write outside it is \<open>None\<close>.
\<close>

fun bcd_loop :: "nat \<Rightarrow> 32 word \<Rightarrow> 8 word list \<Rightarrow> 8 word list option" where
  "bcd_loop 0 data bcd_number = Some bcd_number"
| "bcd_loop (Suc i) data bcd_number =
     (if i < length bcd_number
      then bcd_loop i (data div 10) (bcd_number[i := ucast (data mod 10)])
      else None)"

definition convertToBcdArray ::
    "32 word \<Rightarrow> 8 word \<Rightarrow> 8 word list \<Rightarrow> (8 word \<times> 8 word list) option" where
  "convertToBcdArray data digits bcd_number =
     (case bcd_loop (unat digits) data bcd_number of
        None \<Rightarrow> None
      | Some bcd_number' \<Rightarrow> Some (0, bcd_number'))"

section \<open>Facts about the drivers and the handlers\<close>

lemma unat_ucast_16_32: "unat (ucast (d :: 16 word) :: 32 word) = unat d"
proof -
  have "unat d < 2 ^ 16"
    using unsigned_less [of d, where 'a = nat] by simp
  then have "unat d < 2 ^ 32"
    by simp
  then show ?thesis
    by (simp add: unsigned_ucast_eq take_bit_nat_eq_self)
qed

lemma replicate_8: "replicate 8 e = [e, e, e, e, e, e, e, e]"
  by (simp add: eval_nat_numeral)

lemma mandar_distancia_eq:
  "mandar_distancia d s =
     s\<lparr>uart_tx := uart_tx s @ ''Distancia: '' @ decimal (unat d)
          @ (if pulgadas s then '' in'' else '' cm'') @ [CHR 0x0D, CHR 0x0A],
       calls := calls s @
         [UartSendString_call ''Distancia: '',
          UartSendString_call (decimal (unat d)),
          UartSendString_call ((if pulgadas s then '' in'' else '' cm'') @ [CHR 0x0D, CHR 0x0A])]\<rparr>"
  by (simp add: mandar_distancia_def Let_def UartSendString_def UartItoa_10_def unat_ucast_16_32)

lemma encender_frame:
  "uart_tx (encenderLedSegunDistancia d s) = uart_tx s"
  "medir (encenderLedSegunDistancia d s) = medir s"
  "hold (encenderLedSegunDistancia d s) = hold s"
  "pulgadas (encenderLedSegunDistancia d s) = pulgadas s"
  "period (encenderLedSegunDistancia d s) = period s"
  "timer_a (encenderLedSegunDistancia d s) = timer_a s"
  "filter is_sample_call (calls (encenderLedSegunDistancia d s)) = filter is_sample_call (calls s)"
  by (simp_all add: encenderLedSegunDistancia_def LedsOffAll_def LedOn_def LedOff_def)


lemma Task_hold:
  "medir s \<Longrightarrow> hold s \<Longrightarrow>
   Medir_MostrarPantalla_Task cm inch s =
     s\<lparr>uart_tx := uart_tx s @ ''Distancia: '' @ decimal (unat (if pulgadas s then inch else cm))
          @ (if pulgadas s then '' in'' else '' cm'') @ [CHR 0x0D, CHR 0x0A],
       calls := calls s @
         [if pulgadas s then HcSr04ReadDistanceInInches_call
          else HcSr04ReadDistanceInCentimeters_call,
          UartSendString_call ''Distancia: '',
          UartSendString_call (decimal (unat (if pulgadas s then inch else cm))),
          UartSendString_call ((if pulgadas s then '' in'' else '' cm'') @ [CHR 0x0D, CHR 0x0A])]\<rparr>"
  by (simp add: Medir_MostrarPantalla_Task_def mandar_distancia_eq
      HcSr04ReadDistanceInCentimeters_def HcSr04ReadDistanceInInches_def)


lemma Task_flags:
  "medir (Medir_MostrarPantalla_Task cm inch s) = medir s"
  "period (Medir_MostrarPantalla_Task cm inch s) = period s"
  by (simp_all add: Medir_MostrarPantalla_Task_def mandar_distancia_eq encender_frame
      HcSr04ReadDistanceInCentimeters_def HcSr04ReadDistanceInInches_def LcdItsE0803Write_def)

lemma Task_e2_hold:
  "medir s \<Longrightarrow> hold s \<Longrightarrow>
   Medir_MostrarPantalla_Task_e2 cm s =
     s\<lparr>calls := calls s @ [HcSr04ReadDistanceInCentimeters_call]\<rparr>"
  by (simp add: Medir_MostrarPantalla_Task_e2_def HcSr04ReadDistanceInCentimeters_def)

lemma tecla_1_frame:
  "period (tecla_1 s) = period s"
  "uart_tx (tecla_1 s) = uart_tx s"
  "medir (tecla_1 s) = (\<not> medir s)"
  "filter is_sample_call (calls (tecla_1 s)) = filter is_sample_call (calls s)"
  by (simp_all add: tecla_1_def Let_def LcdItsE0803Off_def LedsOffAll_def)


lemma tecla_2_frame:
  "period (tecla_2 s) = period s"
  "uart_tx (tecla_2 s) = uart_tx s"
  "medir (tecla_2 s) = medir s"
  "visual_off (tecla_2 s) = visual_off s"
  "calls (tecla_2 s) = calls s"
  by (simp_all add: tecla_2_def visual_off_def)

lemma leer_teclado_uart_tx: "uart_tx (leer_teclado letra s) = uart_tx s @ [letra]"
  by (simp add: leer_teclado_def Let_def UartSendByte_def TimerUpdatePeriod_def
      tecla_1_frame tecla_2_frame)





lemma period_F:
  "period (leer_teclado CHR ''F'' s) =
     (if TIEMPO_DE_LECTURA_MINIMO < period s then period s - TIEMPO_DE_LECTURA_STEP
      else period s)"
  by (simp add: leer_teclado_def Let_def UartSendByte_def TimerUpdatePeriod_def)

section \<open>The period controller\<close>

lemma period_ok_faster:
  assumes "period_ok p" and "TIEMPO_DE_LECTURA_MINIMO < p"
  shows "period_ok (p - TIEMPO_DE_LECTURA_STEP)"
proof -
  from assms have lo: "100000 < unat p" and hi: "unat p \<le> 2000000" and m: "unat p mod 100 = 0"
    by (simp_all add: period_ok_def TIEMPO_DE_LECTURA_MINIMO_def TIEMPO_DE_LECTURA_MAXIMO_def
        word_le_nat_alt word_less_nat_alt)
  have "(100 :: 32 word) \<le> p"
    using lo by (simp add: word_le_nat_alt)
  then have u: "unat (p - 100) = unat p - 100"
    by (simp add: unat_sub)
  from lo m have "100100 \<le> unat p" and "(unat p - 100) mod 100 = 0"
    by presburger+
  with hi u have "100000 \<le> unat (p - 100)" and "unat (p - 100) \<le> 2000000"
    and "unat (p - 100) mod 100 = 0"
    by arith+
  then show ?thesis
    by (simp add: period_ok_def TIEMPO_DE_LECTURA_MINIMO_def TIEMPO_DE_LECTURA_MAXIMO_def
        TIEMPO_DE_LECTURA_STEP_def word_le_nat_alt)
qed

lemma period_ok_slower:
  assumes "period_ok p" and "p < TIEMPO_DE_LECTURA_MAXIMO"
  shows "period_ok (p + TIEMPO_DE_LECTURA_STEP)"
proof -
  from assms have lo: "100000 \<le> unat p" and hi: "unat p < 2000000" and m: "unat p mod 100 = 0"
    by (simp_all add: period_ok_def TIEMPO_DE_LECTURA_MINIMO_def TIEMPO_DE_LECTURA_MAXIMO_def
        word_le_nat_alt word_less_nat_alt)
  have "unat p + unat (100 :: 32 word) < 2 ^ LENGTH(32)"
    using hi by simp
  then have u: "unat (p + 100) = unat p + 100"
    by (simp add: unat_add_lem [THEN iffD1])
  from hi m have "unat p + 100 \<le> 2000000"
    by presburger
  with lo m u show ?thesis
    by (simp add: period_ok_def TIEMPO_DE_LECTURA_MINIMO_def TIEMPO_DE_LECTURA_MAXIMO_def
        TIEMPO_DE_LECTURA_STEP_def word_le_nat_alt)
qed

lemma period_ok_leer_teclado:
  "period_ok (period s) \<Longrightarrow> period_ok (period (leer_teclado letra s))"
  by (simp add: leer_teclado_def Let_def UartSendByte_def TimerUpdatePeriod_def
      tecla_1_frame tecla_2_frame period_ok_faster period_ok_slower)

lemma period_ok_step: "period_ok (period s) \<Longrightarrow> period_ok (period (step s e))"
  by (cases e) (simp_all add: period_ok_leer_teclado tecla_1_frame tecla_2_frame Task_flags)

lemma period_ok_run: "period_ok (period s) \<Longrightarrow> period_ok (period (run s es))"
  unfolding run_def
  by (induction es arbitrary: s) (simp_all add: period_ok_step)

lemma period_ok_default: "period_ok CONFIG_MEASURE_PERIOD"
  by (simp add: period_ok_def CONFIG_MEASURE_PERIOD_def TIEMPO_DE_LECTURA_MINIMO_def
      TIEMPO_DE_LECTURA_MAXIMO_def)

text \<open>
  C2. Starting from the default period \<^verbatim>\<open>CONFIG_MEASURE_PERIOD\<close>, after any sequence of
  events (in particular any sequence of \<open>F\<close> and \<open>S\<close> command bytes) the period lies
  between \<^verbatim>\<open>TIEMPO_DE_LECTURA_MINIMO\<close> and \<^verbatim>\<open>TIEMPO_DE_LECTURA_MAXIMO\<close>. An \<open>F\<close> received
  with the period at the minimum, and an \<open>S\<close> received with the period at the maximum,
  only echo the byte: the period and the timer stay as they were and nothing else happens.
\<close>

theorem C2_period_stays_in_bounds:
  "TIEMPO_DE_LECTURA_MINIMO \<le> period (run (s\<lparr>period := CONFIG_MEASURE_PERIOD\<rparr>) es)
   \<and> period (run (s\<lparr>period := CONFIG_MEASURE_PERIOD\<rparr>) es) \<le> TIEMPO_DE_LECTURA_MAXIMO
   \<and> TIEMPO_DE_LECTURA_MINIMO
       \<le> period (run (s\<lparr>period := CONFIG_MEASURE_PERIOD\<rparr>) (map Uart_Rx cmds))
   \<and> period (run (s\<lparr>period := CONFIG_MEASURE_PERIOD\<rparr>) (map Uart_Rx cmds))
       \<le> TIEMPO_DE_LECTURA_MAXIMO
   \<and> leer_teclado CHR ''F'' (s\<lparr>period := TIEMPO_DE_LECTURA_MINIMO\<rparr>)
       = UartSendByte CHR ''F'' (s\<lparr>period := TIEMPO_DE_LECTURA_MINIMO\<rparr>)
   \<and> period (leer_teclado CHR ''F'' (s\<lparr>period := TIEMPO_DE_LECTURA_MINIMO\<rparr>))
       = TIEMPO_DE_LECTURA_MINIMO
   \<and> leer_teclado CHR ''S'' (s\<lparr>period := TIEMPO_DE_LECTURA_MAXIMO\<rparr>)
       = UartSendByte CHR ''S'' (s\<lparr>period := TIEMPO_DE_LECTURA_MAXIMO\<rparr>)
   \<and> period (leer_teclado CHR ''S'' (s\<lparr>period := TIEMPO_DE_LECTURA_MAXIMO\<rparr>))
       = TIEMPO_DE_LECTURA_MAXIMO"
proof -
  have ok: "period_ok (period (run (s\<lparr>period := CONFIG_MEASURE_PERIOD\<rparr>) xs))" for xs
    by (rule period_ok_run) (simp add: period_ok_default)
  have bounds: "TIEMPO_DE_LECTURA_MINIMO \<le> period (run (s\<lparr>period := CONFIG_MEASURE_PERIOD\<rparr>) xs)
      \<and> period (run (s\<lparr>period := CONFIG_MEASURE_PERIOD\<rparr>) xs) \<le> TIEMPO_DE_LECTURA_MAXIMO" for xs
    using ok [of xs] by (simp add: period_ok_def)
  have f: "leer_teclado CHR ''F'' (s\<lparr>period := TIEMPO_DE_LECTURA_MINIMO\<rparr>)
      = UartSendByte CHR ''F'' (s\<lparr>period := TIEMPO_DE_LECTURA_MINIMO\<rparr>)"
    by (simp add: leer_teclado_def Let_def UartSendByte_def)
  have g: "leer_teclado CHR ''S'' (s\<lparr>period := TIEMPO_DE_LECTURA_MAXIMO\<rparr>)
      = UartSendByte CHR ''S'' (s\<lparr>period := TIEMPO_DE_LECTURA_MAXIMO\<rparr>)"
    by (simp add: leer_teclado_def Let_def UartSendByte_def)
  have f': "period (leer_teclado CHR ''F'' (s\<lparr>period := TIEMPO_DE_LECTURA_MINIMO\<rparr>))
      = TIEMPO_DE_LECTURA_MINIMO"
    by (simp only: f) (simp add: UartSendByte_def)
  have g': "period (leer_teclado CHR ''S'' (s\<lparr>period := TIEMPO_DE_LECTURA_MAXIMO\<rparr>))
      = TIEMPO_DE_LECTURA_MAXIMO"
    by (simp only: g) (simp add: UartSendByte_def)
  from bounds [of es] bounds [of "map Uart_Rx cmds"] f g f' g' show ?thesis
    by blast
qed

text \<open>
  C5, as stated, fails on the code: from a period of 2000 ms (2000000 microseconds) eight
  \<open>F\<close> bytes leave the period at 1999200 microseconds, not at 1000 ms.
\<close>

theorem C5_counterexample:
  "period (run (power_on\<lparr>period := 2000 * 1000\<rparr>) (replicate 8 (Uart_Rx CHR ''F''))) = 1999200
   \<and> period (run (power_on\<lparr>period := 2000 * 1000\<rparr>) (replicate 8 (Uart_Rx CHR ''F'')))
       \<noteq> 1000 * 1000"
  by (simp add: run_def replicate_8 period_F TIEMPO_DE_LECTURA_MINIMO_def
      TIEMPO_DE_LECTURA_STEP_def)

text \<open>
  C5, amended. With the period at 2000 ms (2000000 microseconds), eight consecutive \<open>F\<close>
  bytes lower the period by eight times \<^verbatim>\<open>TIEMPO_DE_LECTURA_STEP\<close>, which leaves it above
  the minimum \<^verbatim>\<open>TIEMPO_DE_LECTURA_MINIMO\<close> of 100 ms (100000 microseconds); and an \<open>F\<close>
  received with the period at that minimum does not take it below the minimum.
\<close>

theorem C5_eight_faster_commands:
  "period (run (s\<lparr>period := 2000 * 1000\<rparr>) (replicate 8 (Uart_Rx CHR ''F'')))
     = 2000 * 1000 - 8 * TIEMPO_DE_LECTURA_STEP
   \<and> TIEMPO_DE_LECTURA_MINIMO
       < period (run (s\<lparr>period := 2000 * 1000\<rparr>) (replicate 8 (Uart_Rx CHR ''F'')))
   \<and> TIEMPO_DE_LECTURA_MINIMO = 100 * 1000
   \<and> period (leer_teclado CHR ''F'' (s\<lparr>period := TIEMPO_DE_LECTURA_MINIMO\<rparr>))
       = TIEMPO_DE_LECTURA_MINIMO"
  by (simp add: run_def replicate_8 period_F TIEMPO_DE_LECTURA_MINIMO_def
      TIEMPO_DE_LECTURA_STEP_def)

section \<open>The worker task and the mode flags\<close>



text \<open>
  C3. With \<^verbatim>\<open>hold\<close> and \<^verbatim>\<open>medir\<close> both true, a cycle of the task leaves the three
  LEDs and the display as they were, and the cycle calls no LED or display driver. This
  holds for the task of proyecto2\_e3 and for the task of proyecto2\_e2.
\<close>

theorem C3_hold_leaves_visual_sinks:
  assumes "hold s" and "medir s"
  shows "led_1 (Medir_MostrarPantalla_Task cm inch s) = led_1 s
         \<and> led_2 (Medir_MostrarPantalla_Task cm inch s) = led_2 s
         \<and> led_3 (Medir_MostrarPantalla_Task cm inch s) = led_3 s
         \<and> lcd (Medir_MostrarPantalla_Task cm inch s) = lcd s
         \<and> filter is_visual_call (calls (Medir_MostrarPantalla_Task cm inch s))
             = filter is_visual_call (calls s)
         \<and> led_1 (Medir_MostrarPantalla_Task_e2 cm s) = led_1 s
         \<and> led_2 (Medir_MostrarPantalla_Task_e2 cm s) = led_2 s
         \<and> led_3 (Medir_MostrarPantalla_Task_e2 cm s) = led_3 s
         \<and> lcd (Medir_MostrarPantalla_Task_e2 cm s) = lcd s
         \<and> filter is_visual_call (calls (Medir_MostrarPantalla_Task_e2 cm s))
             = filter is_visual_call (calls s)"
  by (simp add: Task_hold [OF assms(2) assms(1)] Task_e2_hold [OF assms(2) assms(1)])

theorem C3_witness:
  "hold (power_on\<lparr>hold := True, led_1 := True, lcd := Some 15\<rparr>)
   \<and> medir (power_on\<lparr>hold := True, led_1 := True, lcd := Some 15\<rparr>)
   \<and> led_1 (Medir_MostrarPantalla_Task 42 17 (power_on\<lparr>hold := True, led_1 := True, lcd := Some 15\<rparr>))
   \<and> lcd (Medir_MostrarPantalla_Task 42 17 (power_on\<lparr>hold := True, led_1 := True, lcd := Some 15\<rparr>))
       = Some 15
   \<and> lcd (Medir_MostrarPantalla_Task_e2 42 (power_on\<lparr>hold := True, led_1 := True, lcd := Some 15\<rparr>))
       = Some 15"
proof -
  have h: "hold (power_on\<lparr>hold := True, led_1 := True, lcd := Some 15\<rparr>)"
    and m: "medir (power_on\<lparr>hold := True, led_1 := True, lcd := Some 15\<rparr>)"
    by (simp_all add: power_on_def)
  show ?thesis
    using h m C3_hold_leaves_visual_sinks [OF h m, of 42 17]
    by simp
qed




text \<open>
  C8. A received byte other than \<open>O\<close>, \<open>H\<close>, \<open>I\<close>, \<open>F\<close>, \<open>S\<close> is echoed and nothing
  else happens: the flags \<^verbatim>\<open>medir\<close>, \<^verbatim>\<open>hold\<close>, \<^verbatim>\<open>pulgadas\<close>, the period and the
  timer keep their values, and the handler has no error result. Every received byte, so
  every accepted token, is sent back exactly once on the UART.
\<close>

theorem C8_unrecognised_bytes_are_dropped:
  "(letra \<notin> {CHR ''O'', CHR ''H'', CHR ''I'', CHR ''F'', CHR ''S''} \<longrightarrow>
      leer_teclado letra s = UartSendByte letra s
      \<and> medir (leer_teclado letra s) = medir s
      \<and> hold (leer_teclado letra s) = hold s
      \<and> pulgadas (leer_teclado letra s) = pulgadas s
      \<and> period (leer_teclado letra s) = period s
      \<and> timer_a (leer_teclado letra s) = timer_a s)
   \<and> uart_tx (leer_teclado letra s) = uart_tx s @ [letra]"
proof -
  have "leer_teclado letra s = UartSendByte letra s"
    if "letra \<notin> {CHR ''O'', CHR ''H'', CHR ''I'', CHR ''F'', CHR ''S''}"
    using that by (simp add: leer_teclado_def Let_def)
  then show ?thesis
    by (auto simp add: UartSendByte_def leer_teclado_uart_tx)
qed

theorem C8_witness:
  "CHR ''X'' \<notin> {CHR ''O'', CHR ''H'', CHR ''I'', CHR ''F'', CHR ''S''}
   \<and> leer_teclado CHR ''X'' power_on = power_on\<lparr>uart_tx := ''X'', calls := [UartSendByte_call CHR ''X'']\<rparr>
   \<and> uart_tx (leer_teclado CHR ''H'' power_on) = ''H''"
  using C8_unrecognised_bytes_are_dropped [of "CHR ''X''" power_on]
    C8_unrecognised_bytes_are_dropped [of "CHR ''H''" power_on]
  by (simp add: UartSendByte_def power_on_def)

section \<open>Disabled means dark and silent, unless the toggle cuts into a cycle\<close>

lemma task_cycle_is_Task:
  "task_cycle (Suc (Suc (Suc (Suc (Suc (Suc (Suc (Suc 0)))))))) cm inch Waiting s
     = Some (Medir_MostrarPantalla_Task cm inch s)"
  by (simp add: Medir_MostrarPantalla_Task_def HcSr04ReadDistanceInCentimeters_def
      HcSr04ReadDistanceInInches_def mandar_distancia_eq)












section \<open>The replayed signal is periodic\<close>

lemma length_test_signal: "length test_signal = 231"
  by (simp add: test_signal_def)

lemma ucast_8_16_8: "ucast (ucast (x :: 8 word) :: 16 word) = x"
  by (simp add: ucast_up_ucast_id is_up)

lemma sampleSignal_in_range:
  assumes "unat (sample_index s) < 231"
  shows "sampleSignal s =
           Some (test_signal ! unat (sample_index s),
                 s\<lparr>signal_value := ucast (test_signal ! unat (sample_index s)),
                   sample_index := (if unat (sample_index s) < 230 then sample_index s + 1 else 0)\<rparr>)"
  using assms by (simp add: sampleSignal_def Let_def length_test_signal ucast_8_16_8)

lemma unat_index_next:
  assumes "unat (i :: 16 word) < 231"
  shows "unat (if unat i < 230 then i + 1 else 0) = (unat i + 1) mod 231"
proof (cases "unat i < 230")
  case True
  then have "unat i + unat (1 :: 16 word) < 2 ^ LENGTH(16)"
    by simp
  then have "unat (i + 1) = unat i + 1"
    by (simp add: unat_add_lem [THEN iffD1])
  with True show ?thesis
    by simp
next
  case False
  with assms have "unat i = 230"
    by simp
  then show ?thesis
    by simp
qed

lemma after_calls_index:
  "unat (sample_index s) < 231 \<Longrightarrow>
   \<exists>s'. after_calls n s = Some s' \<and> unat (sample_index s') = (unat (sample_index s) + n) mod 231"
proof (induction n arbitrary: s)
  case 0
  then show ?case
    by simp
next
  case (Suc n)
  let ?s1 = "s\<lparr>signal_value := ucast (test_signal ! unat (sample_index s)),
      sample_index := (if unat (sample_index s) < 230 then sample_index s + 1 else 0)\<rparr>"
  have i1: "unat (sample_index ?s1) = (unat (sample_index s) + 1) mod 231"
    using unat_index_next [OF Suc.prems] by simp
  then have "unat (sample_index ?s1) < 231"
    by simp
  from Suc.IH [OF this] obtain s' where s': "after_calls n ?s1 = Some s'"
    and idx: "unat (sample_index s') = (unat (sample_index ?s1) + n) mod 231"
    by blast
  have "after_calls (Suc n) s = Some s'"
    using s' by (simp add: sampleSignal_in_range [OF Suc.prems])
  moreover have "unat (sample_index s') = (unat (sample_index s) + Suc n) mod 231"
    unfolding idx i1 by (simp add: mod_add_left_eq)
  ultimately show ?case
    by blast
qed

lemma after_calls_from_start:
  "\<exists>s'. after_calls k (s\<lparr>sample_index := 0\<rparr>) = Some s' \<and> unat (sample_index s') = k mod 231"
  using after_calls_index [of "s\<lparr>sample_index := 0\<rparr>" k] by simp

lemma nth_call_from_start:
  "nth_call k (s\<lparr>sample_index := 0\<rparr>) = Some (test_signal ! (k mod 231))"
proof -
  from after_calls_from_start [of k s] obtain s'
    where s': "after_calls k (s\<lparr>sample_index := 0\<rparr>) = Some s'"
      and idx: "unat (sample_index s') = k mod 231"
    by blast
  have "unat (sample_index s') < 231"
    unfolding idx by simp
  from sampleSignal_in_range [OF this] s' idx show ?thesis
    by (simp add: nth_call_def)
qed

lemma cursor_from_start:
  "map_option sample_index (after_calls k (s\<lparr>sample_index := 0\<rparr>)) = Some (of_nat (k mod 231))"
proof -
  from after_calls_from_start [of k s] obtain s'
    where s': "after_calls k (s\<lparr>sample_index := 0\<rparr>) = Some s'"
      and idx: "unat (sample_index s') = k mod 231"
    by blast
  have "sample_index s' = of_nat (unat (sample_index s'))"
    by simp
  with s' idx show ?thesis
    by simp
qed

text \<open>
  C7. Starting with the cursor \<^verbatim>\<open>sample_index\<close> at 0, every call of \<^verbatim>\<open>sampleSignal\<close>
  returns a value: call number \<open>k\<close> returns the element of \<^verbatim>\<open>test_signal\<close> at position
  \<open>k mod 231\<close>, where 231 is the length of \<^verbatim>\<open>test_signal\<close>, and after \<open>k\<close> calls the
  cursor is \<open>k mod 231\<close> (it advances by one and goes back to 0 past the last element).
  So call number \<open>n * 231 + k\<close> returns what call number \<open>k\<close> returns, for all \<open>n\<close>
  and \<open>k\<close>.
\<close>

theorem C7_replay_is_periodic:
  "nth_call (length test_signal + k) (s\<lparr>sample_index := 0\<rparr>) = nth_call k (s\<lparr>sample_index := 0\<rparr>)
   \<and> nth_call (n * length test_signal + k) (s\<lparr>sample_index := 0\<rparr>)
       = nth_call k (s\<lparr>sample_index := 0\<rparr>)
   \<and> nth_call k (s\<lparr>sample_index := 0\<rparr>) = Some (test_signal ! (k mod length test_signal))
   \<and> map_option sample_index (after_calls k (s\<lparr>sample_index := 0\<rparr>))
       = Some (of_nat (k mod length test_signal))
   \<and> length test_signal = 231"
  by (simp add: nth_call_from_start cursor_from_start length_test_signal)

section \<open>The BCD conversion\<close>

lemma unat_digit:
  "unat (ucast (data mod 10 :: 32 word) :: 8 word) = unat data mod 10"
proof -
  have "unat (data mod 10) = unat data mod 10"
    by (simp add: unat_mod)
  moreover have "unat data mod 10 < 2 ^ 8"
    by (rule less_trans [of _ 10]) simp_all
  ultimately show ?thesis
    by (simp add: unsigned_ucast_eq take_bit_nat_eq_self)
qed

lemma unat_div_10: "unat (data div 10 :: 32 word) = unat data div 10"
  by (simp add: unat_div)

lemma bcd_loop_spec:
  "n \<le> length b \<Longrightarrow>
   \<exists>out. bcd_loop n data b = Some out \<and> length out = length b
     \<and> (\<forall>i<n. unat (out ! i) = (unat data div 10 ^ (n - 1 - i)) mod 10)
     \<and> (\<forall>i. n \<le> i \<longrightarrow> i < length b \<longrightarrow> out ! i = b ! i)"
proof (induction n arbitrary: data b)
  case 0
  then show ?case
    by simp
next
  case (Suc n)
  let ?b1 = "b[n := ucast (data mod 10)]"
  from Suc.prems have n: "n < length b"
    by simp
  then have "n \<le> length ?b1"
    by simp
  from Suc.IH [OF this, of "data div 10"] obtain out
    where run: "bcd_loop n (data div 10) ?b1 = Some out"
      and len: "length out = length b"
      and low: "\<forall>i<n. unat (out ! i) = (unat (data div 10) div 10 ^ (n - 1 - i)) mod 10"
      and rest: "\<forall>i. n \<le> i \<longrightarrow> i < length b \<longrightarrow> out ! i = ?b1 ! i"
    by auto
  have step: "bcd_loop (Suc n) data b = Some out"
    using n run by simp
  have digits: "unat (out ! i) = (unat data div 10 ^ (Suc n - 1 - i)) mod 10" if "i < Suc n" for i
  proof (cases "i = n")
    case True
    with rest n have "out ! i = ucast (data mod 10)"
      by simp
    with True show ?thesis
      by (simp add: unat_digit)
  next
    case False
    with that have i: "i < n"
      by simp
    then have e: "Suc n - 1 - i = Suc (n - 1 - i)"
      by simp
    from low i have "unat (out ! i) = (unat data div 10 div 10 ^ (n - 1 - i)) mod 10"
      by (simp add: unat_div_10)
    then show ?thesis
      unfolding e by (simp add: div_mult2_eq)
  qed
  have untouched: "out ! i = b ! i" if "Suc n \<le> i" and "i < length b" for i
    using rest that by simp
  from step len digits untouched show ?case
    by blast
qed

lemma digit_le_9:
  assumes "unat (w :: 8 word) = m mod 10"
  shows "w \<le> 9"
proof -
  have "m mod 10 \<le> 9"
    by simp
  with assms show ?thesis
    by (simp add: word_le_nat_alt)
qed

text \<open>
  C10. Given an array with room for \<open>digits\<close> entries, \<^verbatim>\<open>convertToBcdArray\<close> returns 0
  for every 32-bit \<open>data\<close> and every digit count, and it stores the \<open>digits\<close> low decimal
  digits of \<open>data\<close>, most significant first: entry \<open>i\<close> (for \<open>i\<close> below \<open>digits\<close>)
  is \<open>(data div 10 ^ (digits - 1 - i)) mod 10\<close>, a value from 0 to 9. The array keeps
  its length, and the entries from position \<open>digits\<close> on are not written.
\<close>

theorem C10_convertToBcdArray_digits:
  assumes "unat digits \<le> length bcd_number"
  shows "\<exists>out. convertToBcdArray data digits bcd_number = Some (0, out)
           \<and> length out = length bcd_number
           \<and> (\<forall>i<unat digits.
                 unat (out ! i) = (unat data div 10 ^ (unat digits - 1 - i)) mod 10
                 \<and> out ! i \<le> 9)
           \<and> (\<forall>i. unat digits \<le> i \<longrightarrow> i < length bcd_number \<longrightarrow> out ! i = bcd_number ! i)"
proof -
  from bcd_loop_spec [OF assms, of data] obtain out
    where run: "bcd_loop (unat digits) data bcd_number = Some out"
      and len: "length out = length bcd_number"
      and low: "\<forall>i<unat digits. unat (out ! i) = (unat data div 10 ^ (unat digits - 1 - i)) mod 10"
      and rest: "\<forall>i. unat digits \<le> i \<longrightarrow> i < length bcd_number \<longrightarrow> out ! i = bcd_number ! i"
    by blast
  have "convertToBcdArray data digits bcd_number = Some (0, out)"
    using run by (simp add: convertToBcdArray_def)
  moreover have "\<forall>i<unat digits.
      unat (out ! i) = (unat data div 10 ^ (unat digits - 1 - i)) mod 10 \<and> out ! i \<le> 9"
    using low digit_le_9 by blast
  ultimately show ?thesis
    using len rest by blast
qed

theorem C10_witness:
  "unat (3 :: 8 word) \<le> length [0, 0, 0 :: 8 word]
   \<and> convertToBcdArray 127 3 [0, 0, 0] = Some (0, [1, 2, 7])
   \<and> (\<exists>out. convertToBcdArray 127 3 [0, 0, 0] = Some (0, out) \<and> length out = 3
         \<and> unat (out ! 0) = (127 div 10 ^ 2) mod 10)"
proof -
  have h: "unat (3 :: 8 word) \<le> length [0, 0, 0 :: 8 word]"
    by simp
  have ev: "convertToBcdArray 127 3 [0, 0, 0] = Some (0, [1, 2, 7])"
  proof -
    have "bcd_loop (Suc (Suc (Suc 0))) 127 [0, 0, 0] = Some [1, 2, 7]"
      by simp
    then have "bcd_loop 3 127 [0, 0, 0] = Some [1, 2, 7]"
      by (simp only: numeral_3_eq_3)
    then show ?thesis
      by (simp add: convertToBcdArray_def)
  qed
  from C10_convertToBcdArray_digits [OF h, of 127] obtain out
    where "convertToBcdArray 127 3 [0, 0, 0] = Some (0, out)" and "length out = 3"
      and "\<forall>i<unat (3 :: 8 word). unat (out ! i) = (unat (127 :: 32 word) div 10 ^ (unat (3 :: 8 word) - 1 - i)) mod 10 \<and> out ! i \<le> 9"
    by auto
  then have "\<exists>out. convertToBcdArray 127 3 [0, 0, 0] = Some (0, out) \<and> length out = 3
         \<and> unat (out ! 0) = (127 div 10 ^ 2) mod 10"
    by auto
  with h ev show ?thesis
    by blast
qed

section \<open>The LED exercise: the cases of the switch run into each other\<close>

text \<open>
  C9 does not hold of \<^verbatim>\<open>function_leds\<close>. Starting with every LED off: in mode
  \<^verbatim>\<open>ON\<close> with no toggle cycles the function switches LED 2 on and then off again, so
  the LED ends off; in mode \<^verbatim>\<open>OFF\<close> with one toggle cycle it switches LED 1 off and
  then toggles it, so the LED ends on.
\<close>

theorem C9_function_leds_falls_through:
  "function_leds \<lparr>mode = ON, n_led = led_code LED_2, n_ciclos = 0, periodo = 0\<rparr> board_off
     = Some (board_off\<lparr>calls := [LedOn_call LED_2, LedOff_call LED_2]\<rparr>)
   \<and> function_leds \<lparr>mode = OFF, n_led = led_code LED_1, n_ciclos = 1, periodo = 0\<rparr> board_off
     = Some (board_off\<lparr>led_1 := True, calls := [LedOff_call LED_1, LedToggle_call LED_1]\<rparr>)"
  by (simp add: function_leds_def ON_def OFF_def switch_LedOn_def switch_LedOff_def
      switch_LedToggle_def LedOn_def LedOff_def LedToggle_def board_off_def delay_loop.simps)

end
